theory Spec2Isabelle
  imports Main
begin

section \<open>Values\<close>

text \<open>
  A Python \<open>str\<close> is modelled by its UTF-8 bytes, a HOL \<open>string\<close>; concatenation of
  strings is concatenation of their encodings. \<open>bytes\<close> are the same type read as raw
  octets.
\<close>

type_synonym str = string
type_synonym bytes = "char list"

text \<open>
  \<open>datetime.datetime\<close> is a subclass of \<open>datetime.date\<close>: it has the three calendar
  fields and adds the time of day, the time zone (\<open>None\<close> for a naive datetime, the
  UTC offset in seconds for an aware one) and the fold flag.
\<close>

record date =
  year :: int
  month :: int
  day :: int

record datetime = date +
  hour :: int
  minute :: int
  second :: int
  microsecond :: int
  tzinfo :: "int option"
  fold :: int

text \<open>The method \<open>datetime.date()\<close>: a date object with the same year, month and day.\<close>

definition datetime_date :: "datetime \<Rightarrow> date" where
  "datetime_date dt = \<lparr>year = year dt, month = month dt, day = day dt\<rparr>"

text \<open>
  The value of a query parameter in the \<open>params\<close> dict: a date object or a string.
  The dict keeps its insertion order, so it is an association list.
\<close>

datatype param = Date date | Str str

type_synonym params = "(str \<times> param) list"

text \<open>The payload of the handlers that return a dict of strings.\<close>

type_synonym payload = "(str \<times> str) list"

section \<open>The credential\<close>

text \<open>
  \<open>codecs.decode(s, "rot13")\<close> of the standard library translates each character by
  a table that rotates \<open>A..Z\<close> and \<open>a..z\<close> by 13 places and leaves every other
  character as it is.
\<close>

definition rot13_char :: "char \<Rightarrow> char" where
  "rot13_char c =
     (let n = (of_char c :: nat)
      in if 65 \<le> n \<and> n \<le> 90 then char_of (65 + (n - 65 + 13) mod 26)
         else if 97 \<le> n \<and> n \<le> 122 then char_of (97 + (n - 97 + 13) mod 26)
         else c)"

definition codecs_decode_rot13 :: "str \<Rightarrow> str" where
  "codecs_decode_rot13 s = map rot13_char s"

section \<open>The outbound call\<close>

text \<open>What \<open>requests.get(url, params=params)\<close> sends.\<close>

record http_request =
  http_method :: str
  url :: str
  params :: params

text \<open>
  The object \<open>requests.get\<close> returns (\<open>web_resp\<close> in the handler): the fields the
  handler can read.
\<close>

record requests_Response =
  status_code :: int
  content :: bytes
  headers :: "(str \<times> str) list"

text \<open>
  The network is a parameter: for the request it is sent, the upstream endpoint answers
  with a response (of any status) or the call raises an exception of the client library
  (\<open>Inl\<close>). The type of the exceptions is left open: the handler never looks at one.
\<close>

type_synonym 'e upstream = "http_request \<Rightarrow> 'e + requests_Response"

section \<open>The process state\<close>

text \<open>
  The module global \<open>NASA\<close>, the trace of the requests sent so far (oldest first),
  and the number of calls of \<open>codecs.decode\<close> made so far.
\<close>

record process =
  NASA :: str
  outbound :: "http_request list"
  decodes :: nat

text \<open>
  The call \<open>codecs.decode(s, "rot13")\<close>: it yields the decoded string, and the call is
  counted.
\<close>

definition codecs_decode :: "str \<Rightarrow> nat \<Rightarrow> str \<times> nat" where
  "codecs_decode s n = (codecs_decode_rot13 s, Suc n)"

text \<open>
  Loading the module runs its one assignment, whose right-hand side is the one call of
  \<open>codecs.decode\<close> in the source; no call was made before it and nothing has been
  sent yet. Every invocation of a handler starts from a state that comes after this one.
\<close>

definition module_load :: process where
  "module_load =
     (let (v, n) = codecs_decode ''9PNJiWSUGzpFtreNtHWzyT8w0ute06KVcUDRKpt6'' 0
      in \<lparr>NASA = v, outbound = [], decodes = n\<rparr>)"

definition requests_get ::
  "'e upstream \<Rightarrow> str \<Rightarrow> params \<Rightarrow> process \<Rightarrow> ('e + requests_Response) \<times> process" where
  "requests_get net u ps p =
     (let req = \<lparr>http_method = ''GET'', url = u, params = ps\<rparr>
      in (net req, p\<lparr>outbound := outbound p @ [req]\<rparr>))"

section \<open>The outgoing response object\<close>

text \<open>
  The framework's \<open>Response\<close> object that is injected into the relay handler. The
  record is extensible: whatever else the object carries is its \<open>more\<close> part.
\<close>

record Response =
  status_code :: int
  body :: bytes
  headers :: "(str \<times> str) list"
  media_type :: "str option"

section \<open>The handlers\<close>

definition heartbeat :: payload where
  "heartbeat = [(''status'', ''alive'')]"

text \<open>
  The relay handler. Its result is what leaves the handler (\<open>Inl\<close> an exception that
  propagates, \<open>Inr\<close> the returned object), the \<open>response\<close> object as the handler leaves
  it, and the process state. The local \<open>start_date_formatted\<close> is assigned and never
  read; the assignment to \<open>response.headers\<close> is commented out in the source.
\<close>

definition get_neo ::
  "'e upstream \<Rightarrow> datetime \<Rightarrow> datetime \<Rightarrow> 'a Response_scheme \<Rightarrow> process
     \<Rightarrow> ('e + 'a Response_scheme) \<times> 'a Response_scheme \<times> process" where
  "get_neo net start_date end_date response p =
     (let start_date_formatted = datetime_date start_date;
          params = [(''start_date'', Date (datetime_date start_date)),
                    (''end_date'', Date (datetime_date end_date)),
                    (''api_key'', Str (NASA p))];
          (r, p1) = requests_get net ''https://api.nasa.gov/neo/rest/v1/feed'' params p
      in case r of
           Inl e \<Rightarrow> (Inl e, response, p1)
         | Inr web_resp \<Rightarrow>
             (let response1 = response\<lparr>Response.status_code := requests_Response.status_code web_resp\<rparr>;
                  response2 = response1\<lparr>Response.body := requests_Response.content web_resp\<rparr>
              in (Inr response2, response2, p1)))"

definition root :: payload where
  "root = [(''message'', ''Hello World'')]"

definition say_hello :: "str \<Rightarrow> payload" where
  "say_hello name = [(''message'', ''Hello '' @ name)]"

section \<open>The application\<close>

text \<open>
  One invocation of a route of the application, with what the framework hands to the
  handler; the relay's invocation carries the network's behaviour during it.
\<close>

datatype ('e, 'a) invocation =
    Heartbeat
  | GetNeo "'e upstream" datetime datetime "'a Response_scheme"
  | Root
  | SayHello str

datatype 'a reply = Json payload | Resp "'a Response_scheme"

fun dispatch :: "('e, 'a) invocation \<Rightarrow> process \<Rightarrow> ('e + 'a reply) \<times> process" where
  "dispatch Heartbeat p = (Inr (Json heartbeat), p)"
| "dispatch (GetNeo net start_date end_date response) p =
     (case get_neo net start_date end_date response p of
        (Inl e, _, p') \<Rightarrow> (Inl e, p')
      | (Inr r, _, p') \<Rightarrow> (Inr (Resp r), p'))"
| "dispatch Root p = (Inr (Json root), p)"
| "dispatch (SayHello name) p = (Inr (Json (say_hello name)), p)"

text \<open>The process state after a sequence of invocations, served one after the other.\<close>

fun run :: "('e, 'a) invocation list \<Rightarrow> process \<Rightarrow> process" where
  "run [] p = p"
| "run (c # cs) p = run cs (snd (dispatch c p))"

section \<open>Scenarios\<close>

text \<open>
  Concrete inputs for the examples below: the failures of the transport, two datetimes
  (the first with a time of day and a UTC offset), a response object before the handler
  runs, and some behaviours of the network.
\<close>

datatype transport_failure = DNSFailure | ConnectionFailure | Timeout

definition afternoon :: datetime where
  "afternoon = \<lparr>year = 2015, month = 9, day = 7, hour = 13, minute = 45, second = 6,
                  microsecond = 7, tzinfo = Some 7200, fold = 0\<rparr>"

definition next_day :: datetime where
  "next_day = \<lparr>year = 2015, month = 9, day = 8, hour = 0, minute = 0, second = 0,
                 microsecond = 0, tzinfo = None, fold = 0\<rparr>"

definition fresh_response :: Response where
  "fresh_response =
     \<lparr>Response.status_code = 200, body = [], headers = [], media_type = None\<rparr>"

definition upstream_ok :: "transport_failure upstream" where
  "upstream_ok req =
     Inr \<lparr>requests_Response.status_code = 200,
          content = ''{'' @ [CHR 0x22] @ ''near_earth_objects'' @ [CHR 0x22] @ '': {}}'',
          headers = [(''Content-Type'', ''application/json'')]\<rparr>"

definition upstream_forbidden :: "transport_failure upstream" where
  "upstream_forbidden req =
     Inr \<lparr>requests_Response.status_code = 403,
          content = ''API_KEY_INVALID'',
          headers = [(''Content-Type'', ''text/plain'')]\<rparr>"

definition upstream_timed_out :: "transport_failure upstream" where
  "upstream_timed_out req = Inl Timeout"

definition upstream_unreachable :: "transport_failure upstream" where
  "upstream_unreachable req = Inl ConnectionFailure"

definition upstream_unresolved :: "transport_failure upstream" where
  "upstream_unresolved req = Inl DNSFailure"

section \<open>The relay handler, step by step\<close>

text \<open>
  The handler sends one request and then either leaves with the exception of the call
  or assigns the two fields and returns the object.
\<close>

lemma get_neo_eq:
  "get_neo net sd ed r p =
     (let req = \<lparr>http_method = ''GET'', url = ''https://api.nasa.gov/neo/rest/v1/feed'',
                 params = [(''start_date'', Date (datetime_date sd)),
                           (''end_date'', Date (datetime_date ed)),
                           (''api_key'', Str (NASA p))]\<rparr>
      in case net req of
           Inl e \<Rightarrow> (Inl e, r, p\<lparr>outbound := outbound p @ [req]\<rparr>)
         | Inr w \<Rightarrow>
             (Inr (r\<lparr>Response.status_code := requests_Response.status_code w,
                     body := content w\<rparr>),
              r\<lparr>Response.status_code := requests_Response.status_code w, body := content w\<rparr>,
              p\<lparr>outbound := outbound p @ [req]\<rparr>))"
  by (simp add: get_neo_def requests_get_def Let_def split: sum.splits)

text \<open>The table of the codec on a sample: letters rotate, everything else stays.\<close>

lemma codecs_decode_rot13_sample:
  "codecs_decode_rot13 ''Uryyb, Jbeyq! 09 az AZ'' = ''Hello, World! 09 nm NM''"
  by code_simp

lemma NASA_get_neo: "NASA (snd (snd (get_neo net sd ed r p))) = NASA p"
  by (simp add: get_neo_eq Let_def split: sum.splits)

lemma NASA_dispatch: "NASA (snd (dispatch c p)) = NASA p"
  by (cases c) (simp_all add: get_neo_eq Let_def split: sum.splits)

lemma NASA_run: "NASA (run cs p) = NASA p"
  by (induction cs arbitrary: p) (simp_all add: NASA_dispatch)

lemma NASA_module_load:
  "NASA module_load = codecs_decode_rot13 ''9PNJiWSUGzpFtreNtHWzyT8w0ute06KVcUDRKpt6''"
  by (simp add: module_load_def codecs_decode_def)

lemma outbound_module_load: "outbound module_load = []"
  by (simp add: module_load_def codecs_decode_def)

lemma decodes_module_load: "decodes module_load = 1"
  by (simp add: module_load_def codecs_decode_def)

lemma decodes_dispatch: "decodes (snd (dispatch c p)) = decodes p"
  by (cases c) (simp_all add: get_neo_eq Let_def split: sum.splits)

lemma decodes_run: "decodes (run cs p) = decodes p"
  by (induction cs arbitrary: p) (simp_all add: decodes_dispatch)

text \<open>The rot13 decoding of the literal of the source, computed.\<close>

lemma literal_decoded:
  "codecs_decode_rot13 ''9PNJiWSUGzpFtreNtHWzyT8w0ute06KVcUDRKpt6''
     = ''9CAWvJFHTmcSgerAgUJmlG8j0hgr06XIpHQEXcg6''"
  by code_simp

section \<open>The relay handler forwards the upstream response\<close>

text \<open>
  C1: whenever the outbound call of the relay handler returns a response, the handler
  returns the response object, whose status code is the upstream response's status code
  and whose body is the upstream response's bytes, unchanged, whatever the status is.
\<close>

theorem get_neo_forwards_upstream:
  assumes "net \<lparr>http_method = ''GET'', url = ''https://api.nasa.gov/neo/rest/v1/feed'',
                 params = [(''start_date'', Date (datetime_date start_date)),
                           (''end_date'', Date (datetime_date end_date)),
                           (''api_key'', Str (NASA p))]\<rparr> = Inr web_resp"
  shows "case get_neo net start_date end_date response p of
           (ret, response', p') \<Rightarrow>
             ret = Inr response'
             \<and> Response.status_code response' = requests_Response.status_code web_resp
             \<and> body response' = content web_resp"
  using assms by (simp add: get_neo_eq)

theorem get_neo_forwards_upstream_witness:
  "upstream_ok \<lparr>http_method = ''GET'', url = ''https://api.nasa.gov/neo/rest/v1/feed'',
                 params = [(''start_date'', Date (datetime_date afternoon)),
                           (''end_date'', Date (datetime_date next_day)),
                           (''api_key'', Str (NASA module_load))]\<rparr>
     = Inr \<lparr>requests_Response.status_code = 200,
          content = ''{'' @ [CHR 0x22] @ ''near_earth_objects'' @ [CHR 0x22] @ '': {}}'',
          headers = [(''Content-Type'', ''application/json'')]\<rparr>
   \<and> (case get_neo upstream_ok afternoon next_day fresh_response module_load of
           (ret, response', p') \<Rightarrow>
             ret = Inr response'
             \<and> Response.status_code response' = 200
             \<and> body response'
                 = ''{'' @ [CHR 0x22] @ ''near_earth_objects'' @ [CHR 0x22] @ '': {}}'')"
proof -
  have h: "upstream_ok \<lparr>http_method = ''GET'', url = ''https://api.nasa.gov/neo/rest/v1/feed'',
                 params = [(''start_date'', Date (datetime_date afternoon)),
                           (''end_date'', Date (datetime_date next_day)),
                           (''api_key'', Str (NASA module_load))]\<rparr>
     = Inr \<lparr>requests_Response.status_code = 200,
          content = ''{'' @ [CHR 0x22] @ ''near_earth_objects'' @ [CHR 0x22] @ '': {}}'',
          headers = [(''Content-Type'', ''application/json'')]\<rparr>"
    by (simp add: upstream_ok_def)
  from get_neo_forwards_upstream
         [where net = upstream_ok and start_date = afternoon and end_date = next_day
            and p = module_load and response = fresh_response, OF h] h
  show ?thesis
    by simp
qed

text \<open>
  C2, as stated: the status code and the bytes of the upstream are copied onto the
  outgoing response in every invocation, also when the upstream call timed out. When
  the call times out there is no upstream response: the exception leaves the handler
  and the response object is as the framework created it.
\<close>

theorem get_neo_timed_out_copies_nothing:
  "get_neo upstream_timed_out afternoon next_day fresh_response module_load
     = (Inl Timeout, fresh_response,
        module_load\<lparr>outbound :=
          [\<lparr>http_method = ''GET'', url = ''https://api.nasa.gov/neo/rest/v1/feed'',
            params = [(''start_date'', Date \<lparr>year = 2015, month = 9, day = 7\<rparr>),
                      (''end_date'', Date \<lparr>year = 2015, month = 9, day = 8\<rparr>),
                      (''api_key'', Str (NASA module_load))]\<rparr>]\<rparr>)"
  by (simp add: get_neo_eq upstream_timed_out_def datetime_date_def afternoon_def
        next_day_def outbound_module_load)

text \<open>
  C2, amended: whenever the outbound call returns a response, of whatever status, its
  status code and its bytes are copied onto the response object and the object is
  returned; whenever the call raises, nothing is copied: the response object is left as
  it was and the exception leaves the handler.
\<close>

theorem get_neo_copies_when_upstream_responds:
  "(net \<lparr>http_method = ''GET'', url = ''https://api.nasa.gov/neo/rest/v1/feed'',
          params = [(''start_date'', Date (datetime_date start_date)),
                    (''end_date'', Date (datetime_date end_date)),
                    (''api_key'', Str (NASA p))]\<rparr> = Inr web_resp
      \<longrightarrow> fst (snd (get_neo net start_date end_date response p))
            = response\<lparr>Response.status_code := requests_Response.status_code web_resp,
                       body := content web_resp\<rparr>
          \<and> fst (get_neo net start_date end_date response p)
            = Inr (fst (snd (get_neo net start_date end_date response p))))
   \<and> (net \<lparr>http_method = ''GET'', url = ''https://api.nasa.gov/neo/rest/v1/feed'',
          params = [(''start_date'', Date (datetime_date start_date)),
                    (''end_date'', Date (datetime_date end_date)),
                    (''api_key'', Str (NASA p))]\<rparr> = Inl e
      \<longrightarrow> fst (snd (get_neo net start_date end_date response p)) = response
          \<and> fst (get_neo net start_date end_date response p) = Inl e)"
  by (simp add: get_neo_eq)

theorem get_neo_copies_when_upstream_responds_witness:
  "fst (snd (get_neo upstream_forbidden afternoon next_day fresh_response module_load))
     = \<lparr>Response.status_code = 403, body = ''API_KEY_INVALID'', headers = [],
        media_type = None\<rparr>
   \<and> fst (get_neo upstream_forbidden afternoon next_day fresh_response module_load)
     = Inr \<lparr>Response.status_code = 403, body = ''API_KEY_INVALID'', headers = [],
            media_type = None\<rparr>
   \<and> fst (snd (get_neo upstream_unreachable afternoon next_day fresh_response module_load))
     = fresh_response
   \<and> fst (get_neo upstream_unreachable afternoon next_day fresh_response module_load)
     = Inl ConnectionFailure"
proof -
  have a: "upstream_forbidden
             \<lparr>http_method = ''GET'', url = ''https://api.nasa.gov/neo/rest/v1/feed'',
              params = [(''start_date'', Date (datetime_date afternoon)),
                        (''end_date'', Date (datetime_date next_day)),
                        (''api_key'', Str (NASA module_load))]\<rparr>
           = Inr \<lparr>requests_Response.status_code = 403, content = ''API_KEY_INVALID'',
                  headers = [(''Content-Type'', ''text/plain'')]\<rparr>"
    by (simp add: upstream_forbidden_def)
  have b: "upstream_unreachable
             \<lparr>http_method = ''GET'', url = ''https://api.nasa.gov/neo/rest/v1/feed'',
              params = [(''start_date'', Date (datetime_date afternoon)),
                        (''end_date'', Date (datetime_date next_day)),
                        (''api_key'', Str (NASA module_load))]\<rparr>
           = Inl ConnectionFailure"
    by (simp add: upstream_unreachable_def)
  from a get_neo_copies_when_upstream_responds
         [where net = upstream_forbidden and start_date = afternoon
            and end_date = next_day and p = module_load and response = fresh_response
            and web_resp = "\<lparr>requests_Response.status_code = 403,
                               content = ''API_KEY_INVALID'',
                               headers = [(''Content-Type'', ''text/plain'')]\<rparr>"
            and e = Timeout]
  have "fst (snd (get_neo upstream_forbidden afternoon next_day fresh_response module_load))
          = fresh_response\<lparr>Response.status_code := 403, body := ''API_KEY_INVALID''\<rparr>
        \<and> fst (get_neo upstream_forbidden afternoon next_day fresh_response module_load)
          = Inr (fst (snd (get_neo upstream_forbidden afternoon next_day fresh_response
                             module_load)))"
    by simp
  moreover
  from b get_neo_copies_when_upstream_responds
         [where net = upstream_unreachable and start_date = afternoon
            and end_date = next_day and p = module_load and response = fresh_response
            and e = ConnectionFailure
            and web_resp = "\<lparr>requests_Response.status_code = 403,
                               content = ''API_KEY_INVALID'',
                               headers = [(''Content-Type'', ''text/plain'')]\<rparr>"]
  have "fst (snd (get_neo upstream_unreachable afternoon next_day fresh_response
                    module_load)) = fresh_response
        \<and> fst (get_neo upstream_unreachable afternoon next_day fresh_response module_load)
          = Inl ConnectionFailure"
    by simp
  ultimately show ?thesis
    by (simp add: fresh_response_def)
qed

section \<open>Failures of the transport\<close>

text \<open>
  C3: whenever the outbound call of the relay handler raises a failure of the transport,
  the handler does not catch it: the same exception leaves the handler, the response
  object is untouched, and the invocation yields the exception and no reply.
\<close>

theorem get_neo_transport_failure_propagates:
  assumes "net \<lparr>http_method = ''GET'', url = ''https://api.nasa.gov/neo/rest/v1/feed'',
                 params = [(''start_date'', Date (datetime_date start_date)),
                           (''end_date'', Date (datetime_date end_date)),
                           (''api_key'', Str (NASA p))]\<rparr> = Inl e"
  shows "fst (get_neo net start_date end_date response p) = Inl e
         \<and> fst (snd (get_neo net start_date end_date response p)) = response
         \<and> fst (dispatch (GetNeo net start_date end_date response) p) = Inl e"
proof -
  from assms have "get_neo net start_date end_date response p
      = (Inl e, response,
         p\<lparr>outbound := outbound p @
              [\<lparr>http_method = ''GET'', url = ''https://api.nasa.gov/neo/rest/v1/feed'',
                params = [(''start_date'', Date (datetime_date start_date)),
                          (''end_date'', Date (datetime_date end_date)),
                          (''api_key'', Str (NASA p))]\<rparr>]\<rparr>)"
    by (simp add: get_neo_eq)
  then show ?thesis
    by simp
qed

theorem get_neo_transport_failure_propagates_witness:
  "fst (get_neo upstream_unresolved afternoon next_day fresh_response module_load)
     = Inl DNSFailure
   \<and> fst (snd (get_neo upstream_unresolved afternoon next_day fresh_response module_load))
     = fresh_response
   \<and> fst (dispatch (GetNeo upstream_unresolved afternoon next_day fresh_response)
            module_load) = Inl DNSFailure"
proof -
  have h: "upstream_unresolved
             \<lparr>http_method = ''GET'', url = ''https://api.nasa.gov/neo/rest/v1/feed'',
              params = [(''start_date'', Date (datetime_date afternoon)),
                        (''end_date'', Date (datetime_date next_day)),
                        (''api_key'', Str (NASA module_load))]\<rparr> = Inl DNSFailure"
    by (simp add: upstream_unresolved_def)
  show ?thesis
    by (rule get_neo_transport_failure_propagates
               [where net = upstream_unresolved and p = module_load, OF h])
qed

section \<open>The outbound request\<close>

text \<open>
  C4: the \<open>start_date\<close> and \<open>end_date\<close> values of the outbound query are the calendar
  dates (year, month, day) of the two inputs, so the requests sent are the same as for
  the two datetimes at midnight.
\<close>

theorem get_neo_query_dates_are_date_only:
  "map_of (params (last (outbound (snd (snd
       (get_neo net start_date end_date response p)))))) ''start_date''
     = Some (Date \<lparr>year = year start_date, month = month start_date,
                    day = day start_date\<rparr>)
   \<and> map_of (params (last (outbound (snd (snd
       (get_neo net start_date end_date response p)))))) ''end_date''
     = Some (Date \<lparr>year = year end_date, month = month end_date, day = day end_date\<rparr>)
   \<and> outbound (snd (snd (get_neo net start_date end_date response p)))
     = outbound (snd (snd (get_neo net
         (start_date\<lparr>hour := 0, minute := 0, second := 0, microsecond := 0\<rparr>)
         (end_date\<lparr>hour := 0, minute := 0, second := 0, microsecond := 0\<rparr>)
         response p)))"
  by (simp add: get_neo_eq Let_def datetime_date_def split: sum.splits)

theorem get_neo_query_dates_are_date_only_witness:
  "map_of (params (last (outbound (snd (snd
       (get_neo upstream_ok afternoon next_day fresh_response module_load))))))
     ''start_date'' = Some (Date \<lparr>year = 2015, month = 9, day = 7\<rparr>)
   \<and> map_of (params (last (outbound (snd (snd
       (get_neo upstream_ok afternoon next_day fresh_response module_load))))))
     ''end_date'' = Some (Date \<lparr>year = 2015, month = 9, day = 8\<rparr>)"
proof -
  have ymd: "year afternoon = 2015" "month afternoon = 9" "day afternoon = 7"
    "year next_day = 2015" "month next_day = 9" "day next_day = 8"
    by (simp_all add: afternoon_def next_day_def)
  from get_neo_query_dates_are_date_only
         [where net = upstream_ok and start_date = afternoon and end_date = next_day
            and response = fresh_response and p = module_load]
  show ?thesis
    unfolding ymd by (elim conjE) (intro conjI; assumption)
qed

text \<open>
  C5: in every state the process can reach after the module is loaded, an invocation of
  the relay handler adds exactly one request to the trace of outbound calls: a GET of
  the fixed URL whose query has exactly the keys \<open>start_date\<close>, \<open>end_date\<close> (the two
  calendar dates) and \<open>api_key\<close> (the decoded credential).
\<close>

theorem get_neo_sends_exactly_one_request:
  "outbound (snd (snd (get_neo net start_date end_date response (run calls module_load))))
     = outbound (run calls module_load) @
       [\<lparr>http_method = ''GET'', url = ''https://api.nasa.gov/neo/rest/v1/feed'',
         params = [(''start_date'', Date (datetime_date start_date)),
                   (''end_date'', Date (datetime_date end_date)),
                   (''api_key'', Str (codecs_decode_rot13
                                       ''9PNJiWSUGzpFtreNtHWzyT8w0ute06KVcUDRKpt6''))]\<rparr>]"
proof -
  have "NASA (run calls module_load)
          = codecs_decode_rot13 ''9PNJiWSUGzpFtreNtHWzyT8w0ute06KVcUDRKpt6''"
    by (simp only: NASA_run NASA_module_load)
  then show ?thesis
    by (simp add: get_neo_eq Let_def split: sum.splits)
qed

section \<open>The credential is read-only\<close>

text \<open>
  C6: the credential is decoded exactly once, when the module is loaded and so before
  any handler runs: the one call of \<open>codecs.decode\<close> has been made in the state the
  module load leaves, and it assigned to the module global the rot13 decoding of the
  literal in the source, which is the string given below. No invocation of any handler
  changes the global or decodes again: after any sequence of invocations the global
  still has that value and the count of decodings is still one, and every relay
  invocation sends that same value as \<open>api_key\<close>.
\<close>

theorem credential_is_decoded_at_load_and_never_modified:
  "codecs_decode_rot13 ''9PNJiWSUGzpFtreNtHWzyT8w0ute06KVcUDRKpt6''
     = ''9CAWvJFHTmcSgerAgUJmlG8j0hgr06XIpHQEXcg6''
   \<and> NASA module_load = ''9CAWvJFHTmcSgerAgUJmlG8j0hgr06XIpHQEXcg6''
   \<and> decodes module_load = 1
   \<and> outbound module_load = []
   \<and> NASA (snd (dispatch c p)) = NASA p
   \<and> decodes (snd (dispatch c p)) = decodes p
   \<and> NASA (run calls module_load) = ''9CAWvJFHTmcSgerAgUJmlG8j0hgr06XIpHQEXcg6''
   \<and> decodes (run calls module_load) = 1
   \<and> map_of (params (last (outbound (snd (snd
       (get_neo net start_date end_date response (run calls module_load)))))))
       ''api_key''
     = Some (Str ''9CAWvJFHTmcSgerAgUJmlG8j0hgr06XIpHQEXcg6'')"
proof -
  have loaded: "NASA module_load = ''9CAWvJFHTmcSgerAgUJmlG8j0hgr06XIpHQEXcg6''"
    by (simp only: NASA_module_load literal_decoded)
  have kept: "NASA (run calls module_load) = ''9CAWvJFHTmcSgerAgUJmlG8j0hgr06XIpHQEXcg6''"
    by (simp only: NASA_run loaded)
  have once: "decodes (run calls module_load) = 1"
    by (simp only: decodes_run decodes_module_load)
  have "map_of (params (last (outbound (snd (snd
       (get_neo net start_date end_date response (run calls module_load)))))))
       ''api_key'' = Some (Str (NASA (run calls module_load)))"
    by (simp add: get_neo_eq Let_def split: sum.splits)
  then have sent: "map_of (params (last (outbound (snd (snd
       (get_neo net start_date end_date response (run calls module_load)))))))
       ''api_key'' = Some (Str ''9CAWvJFHTmcSgerAgUJmlG8j0hgr06XIpHQEXcg6'')"
    by (simp only: kept)
  show ?thesis
    by (intro conjI literal_decoded loaded decodes_module_load outbound_module_load
          NASA_dispatch decodes_dispatch kept once sent)
qed

section \<open>The fixed handlers\<close>

text \<open>
  C7: for every string \<open>name\<close>, the greeting handler returns the payload whose
  \<open>message\<close> is \<open>Hello\<close>, a space, and then exactly \<open>name\<close>; the invocation yields
  that payload for every \<open>name\<close>, never an exception, and leaves the process state
  as it was.
\<close>

theorem say_hello_returns_greeting:
  "say_hello name = [(''message'', ''Hello '' @ name)]
   \<and> dispatch (SayHello name) p = (Inr (Json [(''message'', ''Hello '' @ name)]), p)"
  by (simp add: say_hello_def)

text \<open>
  C8: the root handler returns the fixed payload with \<open>message\<close> \<open>Hello World\<close>; the
  invocation yields it in every process state, never an exception, and leaves the
  state as it was.
\<close>

theorem root_returns_hello_world:
  "root = [(''message'', ''Hello World'')]
   \<and> dispatch Root p = (Inr (Json [(''message'', ''Hello World'')]), p)"
  by (simp add: root_def)

text \<open>
  C9: the heartbeat handler returns the fixed payload with \<open>status\<close> \<open>alive\<close>; the
  invocation yields it in every process state, never an exception, and leaves the
  state as it was.
\<close>

theorem heartbeat_returns_alive:
  "heartbeat = [(''status'', ''alive'')]
   \<and> dispatch Heartbeat p = (Inr (Json [(''status'', ''alive'')]), p)"
  by (simp add: heartbeat_def)

section \<open>The frame of the relay handler\<close>

text \<open>
  C10: the relay handler changes no field of the response object other than
  \<open>status_code\<close> and \<open>body\<close>: the headers (the upstream's headers are not copied),
  the media type and every further field are as they were before the handler ran;
  when an exception leaves the handler the object is not changed at all, and otherwise
  the object returned is that object.
\<close>

theorem get_neo_changes_only_status_code_and_body:
  "case get_neo net start_date end_date response p of
     (ret, response', p') \<Rightarrow>
       Response.headers response' = Response.headers response
       \<and> media_type response' = media_type response
       \<and> Response.more response' = Response.more response
       \<and> response' = response\<lparr>Response.status_code := Response.status_code response',
                                body := body response'\<rparr>
       \<and> (case ret of Inl e \<Rightarrow> response' = response | Inr r \<Rightarrow> r = response')"
  by (simp add: get_neo_eq Let_def split: sum.splits)

theorem get_neo_changes_only_status_code_and_body_witness:
  "Response.headers (fst (snd
      (get_neo upstream_ok afternoon next_day fresh_response module_load))) = []
   \<and> media_type (fst (snd
      (get_neo upstream_ok afternoon next_day fresh_response module_load))) = None"
  using get_neo_changes_only_status_code_and_body
          [where net = upstream_ok and start_date = afternoon and end_date = next_day
             and response = fresh_response and p = module_load]
  by (simp add: fresh_response_def split: prod.splits)

end
